theory Spec2Isabelle
  imports Main "HOL-Library.Sublist" "HOL-Library.Multiset"
begin

section \<open>The OpenAI model catalogue adapter (src/lib/openai-models.ts)\<close>

text \<open>
  A shallow embedding of \<^verbatim>\<open>src/lib/openai-models.ts\<close>. JavaScript strings are lists of
  characters; \<^verbatim>\<open>startsWith\<close> and \<^verbatim>\<open>includes\<close> compare code units, which is comparison of
  list segments. Every search string of the module is plain ASCII.
\<close>

subsection \<open>String operations\<close>

text \<open>\<^verbatim>\<open>s.startsWith(t)\<close>: the first \<open>length t\<close> units of \<open>s\<close> are \<open>t\<close>.\<close>

fun startsWith :: "string \<Rightarrow> string \<Rightarrow> bool" where
  "startsWith s [] = True"
| "startsWith [] (d # t) = False"
| "startsWith (c # s) (d # t) = (c = d \<and> startsWith s t)"

text \<open>\<^verbatim>\<open>s.includes(t)\<close>: \<open>t\<close> occurs in \<open>s\<close> at some position, scanned from the left.\<close>

fun includes_str :: "string \<Rightarrow> string \<Rightarrow> bool" where
  "includes_str [] t = (t = [])"
| "includes_str (c # s) t = (startsWith (c # s) t \<or> includes_str s t)"

text \<open>
  \<^verbatim>\<open>s.toUpperCase()\<close> on the letters \<open>a\<close> to \<open>z\<close>; every other character is left as it
  is. JavaScript also maps letters outside ASCII, so this is the code's function on ASCII
  identifiers only: for an identifier with other letters that misses the label table, the
  \<open>name\<close> field of the model can differ from the code's. Nothing below states the name
  of such an identifier.
\<close>

definition toUpperCase_char :: "char \<Rightarrow> char" where
  "toUpperCase_char c =
     (let n = (of_char c :: nat) in if 97 \<le> n \<and> n \<le> 122 then char_of (n - 32) else c)"

definition toUpperCase :: "string \<Rightarrow> string" where
  "toUpperCase s = map toUpperCase_char s"

text \<open>\<^verbatim>\<open>s.replace(/-/g, ' ')\<close>.\<close>

definition replace_hyphens :: "string \<Rightarrow> string" where
  "replace_hyphens s = map (\<lambda>c. if c = CHR ''-'' then CHR '' '' else c) s"

subsection \<open>Data\<close>

text \<open>\<^verbatim>\<open>interface OpenAIModel { id; object; created; owned_by }\<close>\<close>

record OpenAIModel =
  raw_id :: string
  raw_object :: string
  raw_created :: int
  raw_owned_by :: string

text \<open>\<^verbatim>\<open>interface OpenAIModelsResponse { object; data }\<close>\<close>

record OpenAIModelsResponse =
  resp_object :: string
  data :: "OpenAIModel list"

text \<open>The object literal built at lines 61-68: the fields of an \<^verbatim>\<open>LLMModel\<close>.\<close>

record LLMModel =
  model_id :: string
  name :: string
  provider :: string
  providerId :: string
  multiModal :: bool
  isBeta :: bool

subsection \<open>The static tables and the derivations\<close>

definition nameMap :: "(string \<times> string) list" where
  "nameMap =
    [(''gpt-5'', ''GPT-5''),
     (''gpt-5-mini'', ''GPT-5 Mini''),
     (''gpt-4.5-preview'', ''GPT-4.5 Preview''),
     (''gpt-4o'', ''GPT-4o''),
     (''gpt-4o-mini'', ''GPT-4o Mini''),
     (''gpt-4-turbo'', ''GPT-4 Turbo''),
     (''gpt-4-turbo-preview'', ''GPT-4 Turbo Preview''),
     (''gpt-4'', ''GPT-4''),
     (''gpt-3.5-turbo'', ''GPT-3.5 Turbo''),
     (''o1'', ''o1''),
     (''o1-mini'', ''o1-mini''),
     (''o1-preview'', ''o1 Preview'')]"

text \<open>
  \<^verbatim>\<open>nameMap[modelId] || modelId.toUpperCase().replace(/-/g, ' ')\<close>: the table's own keys
  are looked up; an absent key or an empty label gives the fallback. (A property lookup
  also finds the names that every object inherits, such as \<^verbatim>\<open>constructor\<close>; the function
  is called at line 63 only, on identifiers the filter has retained, and none of those is
  such a name.)
\<close>

definition formatModelName :: "string \<Rightarrow> string" where
  "formatModelName modelId =
     (case map_of nameMap modelId of
        Some label \<Rightarrow> if label \<noteq> [] then label else replace_hyphens (toUpperCase modelId)
      | None \<Rightarrow> replace_hyphens (toUpperCase modelId))"

definition multiModalModels :: "string list" where
  "multiModalModels =
    [''gpt-5'', ''gpt-5-mini'', ''gpt-4.5-preview'', ''gpt-4o'', ''gpt-4o-mini'',
     ''gpt-4-turbo'', ''gpt-4-vision-preview'', ''o1'']"

definition isMultiModalModel :: "string \<Rightarrow> bool" where
  "isMultiModalModel modelId = list_ex (\<lambda>model. includes_str modelId model) multiModalModels"

definition betaModels :: "string list" where
  "betaModels = [''gpt-5'', ''gpt-5-mini'', ''gpt-4.5-preview'', ''o1-preview'']"

definition isBetaModel :: "string \<Rightarrow> bool" where
  "isBetaModel modelId = list_ex (\<lambda>model. includes_str modelId model) betaModels"

text \<open>The entries of \<^verbatim>\<open>priorities\<close>, in the order \<^verbatim>\<open>Object.entries\<close> lists them.\<close>

definition priorities :: "(string \<times> int) list" where
  "priorities =
    [(''gpt-5'', 1),
     (''gpt-5-mini'', 2),
     (''gpt-4.5-preview'', 3),
     (''o1'', 4),
     (''gpt-4o'', 5),
     (''o1-mini'', 6),
     (''gpt-4o-mini'', 7),
     (''gpt-4-turbo'', 8),
     (''gpt-4'', 9),
     (''gpt-3.5-turbo'', 10)]"

text \<open>The \<^verbatim>\<open>for ... of\<close> loop of \<^verbatim>\<open>getModelPriority\<close>: the first entry contained wins.\<close>

fun priority_loop :: "(string \<times> int) list \<Rightarrow> string \<Rightarrow> int" where
  "priority_loop [] modelId = 999"
| "priority_loop ((model, priority) # rest) modelId =
     (if includes_str modelId model then priority else priority_loop rest modelId)"

definition getModelPriority :: "string \<Rightarrow> int" where
  "getModelPriority modelId = priority_loop priorities modelId"

subsection \<open>Filter, map, sort (lines 47-74)\<close>

definition isValidModel :: "string \<Rightarrow> bool" where
  "isValidModel i =
     ((startsWith i ''gpt-'' \<or>
       startsWith i ''o1'' \<or>
       startsWith i ''o3'' \<or>
       i = ''gpt-4o'' \<or>
       i = ''gpt-4o-mini'' \<or>
       i = ''chatgpt-4o-latest'')
      \<and> \<not> includes_str i ''instruct'' \<and> \<not> includes_str i ''base'')"

definition filterModels :: "OpenAIModel list \<Rightarrow> OpenAIModel list" where
  "filterModels ms = filter (\<lambda>model. isValidModel (raw_id model)) ms"

definition toLLMModel :: "OpenAIModel \<Rightarrow> LLMModel" where
  "toLLMModel model =
     \<lparr>model_id = raw_id model,
      name = formatModelName (raw_id model),
      provider = ''OpenAI'',
      providerId = ''openai'',
      multiModal = isMultiModalModel (raw_id model),
      isBeta = isBetaModel (raw_id model)\<rparr>"

text \<open>The comparator \<^verbatim>\<open>(a, b) => getModelPriority(a.id) - getModelPriority(b.id)\<close>.\<close>

definition compareModels :: "LLMModel \<Rightarrow> LLMModel \<Rightarrow> int" where
  "compareModels a b =
     (let priority = getModelPriority (model_id a);
          priorityB = getModelPriority (model_id b)
      in priority - priorityB)"

text \<open>
  \<^verbatim>\<open>Array.prototype.sort\<close> with a comparator is a stable sort (ECMAScript 2019 on): an
  element goes in front of the first element it does not compare greater than.
\<close>

fun insert_by :: "('a \<Rightarrow> 'a \<Rightarrow> int) \<Rightarrow> 'a \<Rightarrow> 'a list \<Rightarrow> 'a list" where
  "insert_by cmp x [] = [x]"
| "insert_by cmp x (y # ys) =
     (if cmp x y \<le> 0 then x # y # ys else y # insert_by cmp x ys)"

definition sort_by :: "('a \<Rightarrow> 'a \<Rightarrow> int) \<Rightarrow> 'a list \<Rightarrow> 'a list" where
  "sort_by cmp xs = foldr (insert_by cmp) xs []"

definition processModels :: "OpenAIModel list \<Rightarrow> LLMModel list" where
  "processModels ms = sort_by compareModels (map toLLMModel (filterModels ms))"

text \<open>A record with the given identifier; the other fields play no part.\<close>

definition mk :: "string \<Rightarrow> OpenAIModel" where
  "mk i = \<lparr>raw_id = i, raw_object = ''model'', raw_created = 0, raw_owned_by = ''openai''\<rparr>"

text \<open>
  The retention rule in the words of the specification: one of the three prefixes or the
  one alias that no prefix covers, and neither excluded substring. It is compared with
  \<open>isValidModel\<close> below.
\<close>

definition isValidModel_simple :: "string \<Rightarrow> bool" where
  "isValidModel_simple i =
     ((prefix ''gpt-'' i \<or> prefix ''o1'' i \<or> prefix ''o3'' i \<or> i = ''chatgpt-4o-latest'')
      \<and> \<not> sublist ''instruct'' i \<and> \<not> sublist ''base'' i)"

subsection \<open>Credentials, requests, responses\<close>

text \<open>
  What the \<^verbatim>\<open>try\<close> block can throw: the \<^verbatim>\<open>Error\<close> of line 39, and the errors of the
  platform (a rejected \<^verbatim>\<open>fetch\<close>, a body that cannot be read, JSON that does not parse
  or has not the shape of an \<^verbatim>\<open>OpenAIModelsResponse\<close>).
\<close>

datatype error = Error string | TypeError string | SyntaxError string

text \<open>\<^verbatim>\<open>process.env\<close>: the two variables line 20 reads; an unset variable is \<open>None\<close>.\<close>

record env =
  NEXT_PUBLIC_OPENAI_API_KEY :: "string option"
  OPENAI_API_KEY :: "string option"

record request =
  url :: string
  authorization :: string
  content_type :: string

text \<open>
  A \<^verbatim>\<open>Response\<close>: the status line, and what \<^verbatim>\<open>await response.text()\<close> and
  \<^verbatim>\<open>await response.json()\<close> give, each of which may reject. JSON whose \<^verbatim>\<open>data\<close> is
  not an array of objects with a string \<^verbatim>\<open>id\<close> makes lines 43-51 throw a
  \<^verbatim>\<open>TypeError\<close>; it is an \<open>Inl\<close> of \<open>response_json\<close>.
\<close>

record response =
  status :: nat
  statusText :: string
  response_text :: "error + string"
  response_json :: "error + OpenAIModelsResponse"

text \<open>\<^verbatim>\<open>response.ok\<close>: the status is in the range 200-299.\<close>

definition ok :: "response \<Rightarrow> bool" where
  "ok r = (200 \<le> status r \<and> status r \<le> 299)"

text \<open>The upstream: how \<^verbatim>\<open>await fetch(...)\<close> answers a request; \<open>Inl\<close> is a rejection.\<close>

type_synonym network = "request \<Rightarrow> error + response"

text \<open>Truthiness of a \<^verbatim>\<open>string | undefined\<close>, and \<^verbatim>\<open>a || b\<close> on such values.\<close>

definition truthy :: "string option \<Rightarrow> bool" where
  "truthy v = (case v of None \<Rightarrow> False | Some s \<Rightarrow> s \<noteq> [])"

definition js_or :: "string option \<Rightarrow> string option \<Rightarrow> string option" where
  "js_or a b = (if truthy a then a else b)"

text \<open>A number in a template literal: its decimal digits.\<close>

definition digit_char :: "nat \<Rightarrow> char" where
  "digit_char n = char_of (48 + n)"

fun string_of_nat :: "nat \<Rightarrow> string" where
  "string_of_nat n =
     (if n < 10 then [digit_char n] else string_of_nat (n div 10) @ [digit_char (n mod 10)])"

declare string_of_nat.simps [simp del]

subsection \<open>fetchOpenAIModels\<close>

text \<open>Line 20: \<^verbatim>\<open>apiKey || process.env.NEXT_PUBLIC_OPENAI_API_KEY || process.env.OPENAI_API_KEY\<close>.\<close>

definition resolveKey :: "env \<Rightarrow> string option \<Rightarrow> string option" where
  "resolveKey e apiKey = js_or (js_or apiKey (NEXT_PUBLIC_OPENAI_API_KEY e)) (OPENAI_API_KEY e)"

text \<open>The request of lines 29-34.\<close>

definition models_request :: "string \<Rightarrow> request" where
  "models_request key =
     \<lparr>url = ''https://api.openai.com/v1/models'',
      authorization = ''Bearer '' @ key,
      content_type = ''application/json''\<rparr>"

text \<open>The message of the \<^verbatim>\<open>Error\<close> thrown at line 39.\<close>

definition api_error_message :: "nat \<Rightarrow> string \<Rightarrow> string" where
  "api_error_message st txt = ''OpenAI API error: '' @ string_of_nat st @ '' '' @ txt"

text \<open>
  The body of the \<^verbatim>\<open>try\<close> block (lines 20-77): what it returns or throws, and the
  requests it sent to the upstream, in order.
\<close>

definition fetchOpenAIModels_try ::
  "env \<Rightarrow> network \<Rightarrow> string option \<Rightarrow> (error + LLMModel list) \<times> request list" where
  "fetchOpenAIModels_try e net apiKey =
     (case resolveKey e apiKey of
        None \<Rightarrow> (Inr [], [])
      | Some key \<Rightarrow>
          if key = [] then (Inr [], [])
          else
            ((case net (models_request key) of
                Inl err \<Rightarrow> Inl err
              | Inr response \<Rightarrow>
                  if \<not> ok response then
                    (case response_text response of
                       Inl err \<Rightarrow> Inl err
                     | Inr errorText \<Rightarrow>
                         Inl (Error (api_error_message (status response) (statusText response))))
                  else
                    (case response_json response of
                       Inl err \<Rightarrow> Inl err
                     | Inr d \<Rightarrow> Inr (processModels (data d)))),
             [models_request key]))"

text \<open>The whole function: the \<^verbatim>\<open>catch\<close> of lines 78-81 turns whatever was thrown into \<open>[]\<close>.\<close>

definition fetchOpenAIModels ::
  "env \<Rightarrow> network \<Rightarrow> string option \<Rightarrow> LLMModel list \<times> request list" where
  "fetchOpenAIModels e net apiKey =
     (case fetchOpenAIModels_try e net apiKey of
        (Inl err, reqs) \<Rightarrow> ([], reqs)
      | (Inr openaiModels, reqs) \<Rightarrow> (openaiModels, reqs))"

subsection \<open>The cache (lines 167-195)\<close>

record cache =
  cachedModels :: "LLMModel list option"
  cacheTimestamp :: int

text \<open>The module's state when it is loaded.\<close>

definition initial_cache :: cache where
  "initial_cache = \<lparr>cachedModels = None, cacheTimestamp = 0\<rparr>"

definition CACHE_DURATION :: int where
  "CACHE_DURATION = 5 * 60 * 1000"

text \<open>
  \<open>now\<close> is the value of \<^verbatim>\<open>Date.now()\<close>. An array is truthy also when it is empty, so
  \<^verbatim>\<open>cachedModels && ...\<close> tests that the variable is not \<^verbatim>\<open>null\<close>. The function
  returns the models, the new state of the cache and the requests sent.
\<close>

definition getCachedOpenAIModels ::
  "env \<Rightarrow> network \<Rightarrow> int \<Rightarrow> string option \<Rightarrow> cache \<Rightarrow> LLMModel list \<times> cache \<times> request list" where
  "getCachedOpenAIModels e net now apiKey c =
     (let refresh =
        (case fetchOpenAIModels e net apiKey of
           (models, reqs) \<Rightarrow> (models, c\<lparr>cachedModels := Some models, cacheTimestamp := now\<rparr>, reqs))
      in case cachedModels c of
           None \<Rightarrow> refresh
         | Some cached \<Rightarrow>
             if now - cacheTimestamp c < CACHE_DURATION then (cached, c, []) else refresh)"

definition clearOpenAIModelsCache :: "cache \<Rightarrow> cache" where
  "clearOpenAIModelsCache c = c\<lparr>cachedModels := None, cacheTimestamp := 0\<rparr>"

subsection \<open>Sample environments and upstreams\<close>

definition env_none :: env where
  "env_none = \<lparr>NEXT_PUBLIC_OPENAI_API_KEY = None, OPENAI_API_KEY = None\<rparr>"

definition env_key :: env where
  "env_key = \<lparr>NEXT_PUBLIC_OPENAI_API_KEY = Some [], OPENAI_API_KEY = Some ''sk-env''\<rparr>"

definition sample_data :: OpenAIModelsResponse where
  "sample_data =
     \<lparr>resp_object = ''list'',
      data = [mk ''gpt-4'', mk ''text-davinci-003'', mk ''o3-mini'', mk ''gpt-4o-mini'',
              mk ''gpt-3.5-turbo-instruct'', mk ''o1-preview'', mk ''gpt-4.1'', mk ''gpt-4o'',
              mk ''gpt-5-mini'', mk ''chatgpt-4o-latest'']\<rparr>"

definition response_ok :: response where
  "response_ok =
     \<lparr>status = 200, statusText = ''OK'',
      response_text = Inr ''models'', response_json = Inr sample_data\<rparr>"

definition net_ok :: network where
  "net_ok req = Inr response_ok"

definition response_401 :: response where
  "response_401 =
     \<lparr>status = 401, statusText = ''Unauthorized'',
      response_text = Inr ''invalid key'', response_json = Inl (SyntaxError ''not JSON'')\<rparr>"

definition net_401 :: network where
  "net_401 req = Inr response_401"

text \<open>A failure status whose body cannot be read: the connection ends after the headers.\<close>

definition response_500_unreadable :: response where
  "response_500_unreadable =
     \<lparr>status = 500, statusText = ''Internal Server Error'',
      response_text = Inl (TypeError ''terminated''),
      response_json = Inl (TypeError ''terminated'')\<rparr>"

definition net_500_unreadable :: network where
  "net_500_unreadable req = Inr response_500_unreadable"

text \<open>A success status whose body is not JSON.\<close>

definition response_bad_json :: response where
  "response_bad_json =
     \<lparr>status = 200, statusText = ''OK'',
      response_text = Inr ''<html>'',
      response_json = Inl (SyntaxError ''Unexpected token'')\<rparr>"

definition net_bad_json :: network where
  "net_bad_json req = Inr response_bad_json"

definition net_down :: network where
  "net_down req = Inl (TypeError ''fetch failed'')"

section \<open>Properties of the string operations\<close>

lemma startsWith_prefix: "startsWith s t = prefix t s"
  by (induction s t rule: startsWith.induct) auto

lemma includes_str_sublist: "includes_str s t = sublist t s"
  by (induction s) (simp_all add: sublist_Cons_right startsWith_prefix)

section \<open>The rank table\<close>

lemma priority_loop_unmatched:
  "\<forall>k \<in> set (map fst ps). \<not> includes_str i k \<Longrightarrow> priority_loop ps i = 999"
  by (induction ps i rule: priority_loop.induct) simp_all

lemma priority_loop_range:
  "priority_loop ps i = 999 \<or> priority_loop ps i \<in> set (map snd ps)"
  by (induction ps i rule: priority_loop.induct) auto

lemma priority_loop_matched:
  "k \<in> set (map fst ps) \<Longrightarrow> includes_str i k \<Longrightarrow> priority_loop ps i \<in> set (map snd ps)"
  by (induction ps i rule: priority_loop.induct) auto

text \<open>The loop as a search: the first entry whose key the identifier contains.\<close>

lemma priority_loop_find:
  "priority_loop ps i =
     (case find (\<lambda>kp. sublist (fst kp) i) ps of None \<Rightarrow> 999 | Some kp \<Rightarrow> snd kp)"
  by (induction ps i rule: priority_loop.induct) (simp_all add: includes_str_sublist)

lemma getModelPriority_find:
  "getModelPriority i =
     (case find (\<lambda>kp. sublist (fst kp) i) priorities of None \<Rightarrow> 999 | Some kp \<Rightarrow> snd kp)"
  by (simp add: getModelPriority_def priority_loop_find)

lemma getModelPriority_first:
  assumes "n < length priorities" and "sublist (fst (priorities ! n)) i"
    and "\<forall>m < n. \<not> sublist (fst (priorities ! m)) i"
  shows "getModelPriority i = snd (priorities ! n)"
proof -
  have "find (\<lambda>kp. sublist (fst kp) i) priorities = Some (priorities ! n)"
    unfolding find_Some_iff using assms by blast
  then show ?thesis by (simp add: getModelPriority_find)
qed

lemma getModelPriority_unfold:
  "getModelPriority i =
     (if sublist ''gpt-5'' i then 1
      else if sublist ''gpt-5-mini'' i then 2
      else if sublist ''gpt-4.5-preview'' i then 3
      else if sublist ''o1'' i then 4
      else if sublist ''gpt-4o'' i then 5
      else if sublist ''o1-mini'' i then 6
      else if sublist ''gpt-4o-mini'' i then 7
      else if sublist ''gpt-4-turbo'' i then 8
      else if sublist ''gpt-4'' i then 9
      else if sublist ''gpt-3.5-turbo'' i then 10
      else 999)"
  by (simp add: getModelPriority_def priorities_def includes_str_sublist)

lemma shadowed_keys:
  "sublist ''gpt-5'' ''gpt-5-mini''" "sublist ''o1'' ''o1-mini''" "sublist ''gpt-4o'' ''gpt-4o-mini''"
  by (simp_all add: includes_str_sublist [symmetric])

text \<open>
  Three entries of the table can never be returned: each of their keys contains a key
  that stands earlier in the table.
\<close>

lemma shadowed_ranks: "getModelPriority i \<notin> {2, 6, 7}"
proof -
  have "sublist ''gpt-5-mini'' i \<Longrightarrow> sublist ''gpt-5'' i"
    and "sublist ''o1-mini'' i \<Longrightarrow> sublist ''o1'' i"
    and "sublist ''gpt-4o-mini'' i \<Longrightarrow> sublist ''gpt-4o'' i"
    using shadowed_keys by (blast intro: sublist_order.order_trans)+
  then show ?thesis
    by (auto simp: getModelPriority_unfold)
qed

section \<open>The sort\<close>

lemma insert_by_compareModels:
  "insert_by compareModels x ys = insort_key (\<lambda>m. getModelPriority (model_id m)) x ys"
  by (induction ys) (simp_all add: compareModels_def)

lemma sort_by_compareModels:
  "sort_by compareModels xs = sort_key (\<lambda>m. getModelPriority (model_id m)) xs"
  by (induction xs) (simp_all add: sort_by_def sort_key_def insert_by_compareModels)

lemma sorted_sort_by:
  "sorted (map (\<lambda>m. getModelPriority (model_id m)) (sort_by compareModels xs))"
  by (simp add: sort_by_compareModels)

lemma mset_sort_by: "mset (sort_by compareModels xs) = mset xs"
  by (simp add: sort_by_compareModels)

lemma stable_sort_by:
  "filter (\<lambda>m. getModelPriority (model_id m) = k) (sort_by compareModels xs) =
   filter (\<lambda>m. getModelPriority (model_id m) = k) xs"
  by (simp add: sort_by_compareModels sort_key_stable)

text \<open>
  The result does not depend on the sorting algorithm: any stable, sorted rearrangement
  of the list is the one \<open>sort_by\<close> computes.
\<close>

lemma sort_by_unique:
  assumes "mset ys = mset xs"
    and "sorted (map (\<lambda>m. getModelPriority (model_id m)) ys)"
    and "\<And>k. filter (\<lambda>m. getModelPriority (model_id m) = k) ys =
              filter (\<lambda>m. getModelPriority (model_id m) = k) xs"
  shows "ys = sort_by compareModels xs"
proof -
  have "sort_key (\<lambda>m. getModelPriority (model_id m)) xs = ys"
  proof (rule properties_for_sort_key)
    show "mset ys = mset xs" by (rule assms(1))
    show "sorted (map (\<lambda>m. getModelPriority (model_id m)) ys)" by (rule assms(2))
    show "\<And>k. k \<in> set ys \<Longrightarrow>
        filter (\<lambda>x. getModelPriority (model_id k) = getModelPriority (model_id x)) ys =
        filter (\<lambda>x. getModelPriority (model_id k) = getModelPriority (model_id x)) xs"
      using assms(3) by (simp add: eq_commute)
  qed
  then show ?thesis by (simp add: sort_by_compareModels)
qed

lemma model_id_toLLMModel: "model_id (toLLMModel m) = raw_id m"
  by (simp add: toLLMModel_def)

lemma processModels_ids_stable:
  "filter (\<lambda>i. getModelPriority i = k) (map model_id (processModels ms)) =
   filter (\<lambda>i. getModelPriority i = k \<and> isValidModel i) (map raw_id ms)"
proof -
  have "filter (\<lambda>i. getModelPriority i = k) (map model_id (processModels ms)) =
        map model_id (filter (\<lambda>m. getModelPriority (model_id m) = k) (processModels ms))"
    by (simp add: filter_map comp_def)
  also have "\<dots> = map model_id (filter (\<lambda>m. getModelPriority (model_id m) = k)
                       (map toLLMModel (filterModels ms)))"
    by (simp add: processModels_def stable_sort_by)
  also have "\<dots> = filter (\<lambda>i. getModelPriority i = k \<and> isValidModel i) (map raw_id ms)"
    by (induction ms) (simp_all add: filterModels_def model_id_toLLMModel)
  finally show ?thesis .
qed

lemma sorted_processModels:
  "sorted (map (\<lambda>m. getModelPriority (model_id m)) (processModels ms))"
  by (simp add: processModels_def sorted_sort_by)

lemma sorted_positions:
  assumes "sorted (map f xs)" "i < length xs" "j < length xs" "f (xs ! i) < f (xs ! j)"
  shows "i < j"
proof (rule ccontr)
  assume "\<not> i < j"
  then have "j \<le> i" by simp
  with assms(1,2) have "map f xs ! j \<le> map f xs ! i"
    by (intro sorted_nth_mono) simp_all
  with assms show False by simp
qed

section \<open>Credentials and the outcome of a fetch\<close>

lemma truthy_iff: "truthy v \<longleftrightarrow> (\<exists>k. v = Some k \<and> k \<noteq> [])"
  by (cases v) (simp_all add: truthy_def)

lemma resolveKey_truthy:
  "truthy (resolveKey e apiKey) \<longleftrightarrow>
   truthy apiKey \<or> truthy (NEXT_PUBLIC_OPENAI_API_KEY e) \<or> truthy (OPENAI_API_KEY e)"
  by (simp add: resolveKey_def js_or_def)

lemma try_no_key:
  "\<not> truthy (resolveKey e apiKey) \<Longrightarrow> fetchOpenAIModels_try e net apiKey = (Inr [], [])"
  by (auto simp: fetchOpenAIModels_try_def truthy_def split: option.splits)

lemma try_requests:
  "resolveKey e apiKey = Some key \<Longrightarrow> key \<noteq> [] \<Longrightarrow>
   snd (fetchOpenAIModels_try e net apiKey) = [models_request key]"
  by (simp add: fetchOpenAIModels_try_def)

lemma fetch_requests:
  "snd (fetchOpenAIModels e net apiKey) = snd (fetchOpenAIModels_try e net apiKey)"
  by (simp add: fetchOpenAIModels_def split: prod.splits sum.splits)

lemma fetch_caught:
  "fst (fetchOpenAIModels_try e net apiKey) = Inl err \<Longrightarrow> fst (fetchOpenAIModels e net apiKey) = []"
  by (cases "fetchOpenAIModels_try e net apiKey") (simp add: fetchOpenAIModels_def)

lemma fetch_returned:
  "fst (fetchOpenAIModels_try e net apiKey) = Inr ms \<Longrightarrow> fst (fetchOpenAIModels e net apiKey) = ms"
  by (cases "fetchOpenAIModels_try e net apiKey") (simp add: fetchOpenAIModels_def)

text \<open>The three ways in which the platform makes the body raise.\<close>

lemma try_read_error:
  "resolveKey e apiKey = Some key \<Longrightarrow> key \<noteq> [] \<Longrightarrow> net (models_request key) = Inr r \<Longrightarrow>
   \<not> (200 \<le> status r \<and> status r \<le> 299) \<Longrightarrow> response_text r = Inl rerr \<Longrightarrow>
   fst (fetchOpenAIModels_try e net apiKey) = Inl rerr"
  by (simp add: fetchOpenAIModels_try_def ok_def)

lemma try_fetch_rejected:
  "resolveKey e apiKey = Some key \<Longrightarrow> key \<noteq> [] \<Longrightarrow> net (models_request key) = Inl ferr \<Longrightarrow>
   fst (fetchOpenAIModels_try e net apiKey) = Inl ferr"
  by (simp add: fetchOpenAIModels_try_def)

lemma try_json_error:
  "resolveKey e apiKey = Some key \<Longrightarrow> key \<noteq> [] \<Longrightarrow> net (models_request key) = Inr r \<Longrightarrow>
   200 \<le> status r \<and> status r \<le> 299 \<Longrightarrow> response_json r = Inl jerr \<Longrightarrow>
   fst (fetchOpenAIModels_try e net apiKey) = Inl jerr"
  by (simp add: fetchOpenAIModels_try_def ok_def)

text \<open>A successful response gives the filtered, enriched and sorted records.\<close>

lemma fetch_success:
  "resolveKey e apiKey = Some key \<Longrightarrow> key \<noteq> [] \<Longrightarrow> net (models_request key) = Inr r \<Longrightarrow>
   ok r \<Longrightarrow> response_json r = Inr d \<Longrightarrow>
   fetchOpenAIModels e net apiKey = (processModels (data d), [models_request key])"
  by (simp add: fetchOpenAIModels_def fetchOpenAIModels_try_def)

section \<open>The sample response\<close>

lemma sample_processed:
  "map model_id (processModels (data sample_data)) =
     [''gpt-5-mini'', ''o1-preview'', ''gpt-4o-mini'', ''gpt-4o'', ''chatgpt-4o-latest'',
      ''gpt-4'', ''gpt-4.1'', ''o3-mini'']"
  by (simp add: sample_data_def getModelPriority_def priorities_def processModels_def
      filterModels_def isValidModel_def mk_def toLLMModel_def sort_by_def compareModels_def)

lemma env_key_resolves: "resolveKey env_key None = Some ''sk-env''"
  by (simp add: resolveKey_def js_or_def truthy_def env_key_def)

lemma fetch_sample:
  "fetchOpenAIModels env_key net_ok None =
     (processModels (data sample_data), [models_request ''sk-env''])"
  by (rule fetch_success [OF env_key_resolves, where r = response_ok])
    (simp_all add: net_ok_def response_ok_def ok_def)

lemma string_of_nat_401: "string_of_nat 401 = ''401''"
  by code_simp

lemma try_down: "fst (fetchOpenAIModels_try env_key net_down None) = Inl (TypeError ''fetch failed'')"
  by (simp add: fetchOpenAIModels_try_def env_key_resolves net_down_def)

section \<open>Derivations for single identifiers\<close>

text \<open>An identifier outside the label table gets the upper-cased, spaced fallback.\<close>

lemma formatModelName_fallback: "formatModelName ''gpt-4.1-nano'' = ''GPT 4.1 NANO''"
  by code_simp

text \<open>
  Claim C1. For the identifier \<open>gpt-4o-mini\<close> the display name is \<open>GPT-4o Mini\<close>, the
  model counts as multimodal and not as a preview, and the priority rank is said to be 7.
  The first three hold. The rank the code computes is 5: the loop of
  \<open>getModelPriority\<close> returns at the first key the identifier contains, and the key
  \<open>gpt-4o\<close> (rank 5) stands before the key \<open>gpt-4o-mini\<close> (rank 7) in the table, so the
  entry written for this very identifier is never reached (see \<open>shadowed_ranks\<close>).
\<close>

theorem gpt_4o_mini_derivations:
  "formatModelName ''gpt-4o-mini'' = ''GPT-4o Mini'' \<and>
   isMultiModalModel ''gpt-4o-mini'' \<and>
   \<not> isBetaModel ''gpt-4o-mini'' \<and>
   getModelPriority ''gpt-4o-mini'' = 5 \<and>
   getModelPriority ''gpt-4o-mini'' \<noteq> 7"
  by (simp add: formatModelName_def nameMap_def isMultiModalModel_def multiModalModels_def
      isBetaModel_def betaModels_def getModelPriority_def priorities_def)

lemma o1_preview_values:
  "isValidModel ''o1-preview''" "isBetaModel ''o1-preview''" "getModelPriority ''o1-preview'' = 4"
  by (simp_all add: isValidModel_def isBetaModel_def betaModels_def getModelPriority_def
      priorities_def)

text \<open>
  Claim C2, as stated: the identifier \<open>o1-preview\<close> is retained, is a preview, gets rank
  999 and is sorted after every entry that matched the rank table. The rank is not 999,
  and in the result for the response \<open>[gpt-4o, o1-preview]\<close> the identifier stands before
  \<open>gpt-4o\<close>, an entry of the table.
\<close>

theorem o1_preview_not_ranked_last:
  "getModelPriority ''o1-preview'' \<noteq> 999 \<and>
   getModelPriority ''gpt-4o'' = 5 \<and>
   map model_id (processModels [mk ''gpt-4o'', mk ''o1-preview'']) = [''o1-preview'', ''gpt-4o'']"
  by (simp add: getModelPriority_def priorities_def processModels_def filterModels_def
      isValidModel_def mk_def toLLMModel_def sort_by_def compareModels_def)

text \<open>
  Claim C2, amended: the identifier \<open>o1-preview\<close> is retained by the filter, is a
  preview, and has rank 4, because it contains the key \<open>o1\<close>; in every result it stands
  before each entry of rank above 4 and after each entry of rank below 4.
\<close>

theorem o1_preview_rank:
  "isValidModel ''o1-preview'' \<and> isBetaModel ''o1-preview'' \<and> getModelPriority ''o1-preview'' = 4 \<and>
   (\<forall>i j. i < length (processModels ms) \<and> j < length (processModels ms) \<and>
      model_id (processModels ms ! i) = ''o1-preview'' \<and>
      4 < getModelPriority (model_id (processModels ms ! j)) \<longrightarrow> i < j) \<and>
   (\<forall>i j. i < length (processModels ms) \<and> j < length (processModels ms) \<and>
      model_id (processModels ms ! i) = ''o1-preview'' \<and>
      getModelPriority (model_id (processModels ms ! j)) < 4 \<longrightarrow> j < i)"
  using sorted_positions [OF sorted_processModels [of ms]] o1_preview_values
  by auto

theorem o1_preview_rank_witness:
  "model_id (processModels (data sample_data) ! 1) = ''o1-preview'' \<and>
   4 < getModelPriority (model_id (processModels (data sample_data) ! 2)) \<and>
   getModelPriority (model_id (processModels (data sample_data) ! 0)) < 4 \<and>
   (1::nat) < 2 \<and> (0::nat) < 1 \<and> getModelPriority ''o1-preview'' = 4"
proof -
  let ?out = "processModels (data sample_data)"
  have len: "length ?out = 8"
    using arg_cong [OF sample_processed, of length] by simp
  have ids: "model_id (?out ! 0) = ''gpt-5-mini''" "model_id (?out ! 1) = ''o1-preview''"
      "model_id (?out ! 2) = ''gpt-4o-mini''"
    using arg_cong [OF sample_processed, of "\<lambda>l. l ! 0"]
      arg_cong [OF sample_processed, of "\<lambda>l. l ! 1"]
      arg_cong [OF sample_processed, of "\<lambda>l. l ! 2"] len
    by simp_all
  have ranks: "getModelPriority ''gpt-5-mini'' = 1" "getModelPriority ''gpt-4o-mini'' = 5"
    by (simp_all add: getModelPriority_def priorities_def)
  show ?thesis
    using o1_preview_rank [of "data sample_data"] len ids ranks by simp
qed

section \<open>Ordering of the result\<close>

text \<open>
  Claim C3. For every list of upstream records, the returned entries are sorted ascending
  by the rank \<open>getModelPriority\<close> obtains from the table. That rank is the number of the
  first entry of the table, in the table's order, whose key the identifier contains, and
  999 when the identifier contains no key. Entries of equal rank keep the relative order
  they had in the upstream response; this is stated twice: on the entries, and on the
  identifiers against the upstream list itself. What \<open>fetchOpenAIModels\<close> returns for a
  successful response is \<open>processModels\<close> of the records received.
\<close>

theorem processModels_sorted_stable:
  "sorted (map (\<lambda>m. getModelPriority (model_id m)) (processModels ms)) \<and>
   priorities =
     [(''gpt-5'', 1), (''gpt-5-mini'', 2), (''gpt-4.5-preview'', 3), (''o1'', 4),
      (''gpt-4o'', 5), (''o1-mini'', 6), (''gpt-4o-mini'', 7), (''gpt-4-turbo'', 8),
      (''gpt-4'', 9), (''gpt-3.5-turbo'', 10)] \<and>
   getModelPriority i =
     (case find (\<lambda>kp. sublist (fst kp) i) priorities of None \<Rightarrow> 999 | Some kp \<Rightarrow> snd kp) \<and>
   (n < length priorities \<and> sublist (fst (priorities ! n)) i \<and>
    (\<forall>m < n. \<not> sublist (fst (priorities ! m)) i) \<longrightarrow>
      getModelPriority i = snd (priorities ! n)) \<and>
   ((\<forall>k \<in> set (map fst priorities). \<not> sublist k i) \<longrightarrow> getModelPriority i = 999) \<and>
   (\<forall>k. filter (\<lambda>m. getModelPriority (model_id m) = k) (processModels ms) =
        filter (\<lambda>m. getModelPriority (model_id m) = k) (map toLLMModel (filterModels ms))) \<and>
   (\<forall>k. filter (\<lambda>i. getModelPriority i = k) (map model_id (processModels ms)) =
        filter (\<lambda>i. getModelPriority i = k \<and> isValidModel i) (map raw_id ms)) \<and>
   (resolveKey e apiKey = Some key \<and> key \<noteq> [] \<and> net (models_request key) = Inr r \<and>
    ok r \<and> response_json r = Inr d \<longrightarrow>
      fst (fetchOpenAIModels e net apiKey) = processModels (data d))"
proof -
  have unmatched:
    "(\<forall>k \<in> set (map fst priorities). \<not> sublist k i) \<longrightarrow> getModelPriority i = 999"
    unfolding getModelPriority_def
    by (intro impI priority_loop_unmatched) (simp add: includes_str_sublist)
  have table: "priorities =
     [(''gpt-5'', 1), (''gpt-5-mini'', 2), (''gpt-4.5-preview'', 3), (''o1'', 4),
      (''gpt-4o'', 5), (''o1-mini'', 6), (''gpt-4o-mini'', 7), (''gpt-4-turbo'', 8),
      (''gpt-4'', 9), (''gpt-3.5-turbo'', 10)]"
    by (simp add: priorities_def)
  have first: "n < length priorities \<and> sublist (fst (priorities ! n)) i \<and>
    (\<forall>m < n. \<not> sublist (fst (priorities ! m)) i) \<longrightarrow>
      getModelPriority i = snd (priorities ! n)"
    using getModelPriority_first [of n i] by blast
  have stable: "filter (\<lambda>m. getModelPriority (model_id m) = k) (processModels ms) =
        filter (\<lambda>m. getModelPriority (model_id m) = k) (map toLLMModel (filterModels ms))" for k
    by (simp add: processModels_def stable_sort_by)
  have returned: "resolveKey e apiKey = Some key \<and> key \<noteq> [] \<and>
      net (models_request key) = Inr r \<and> ok r \<and> response_json r = Inr d \<longrightarrow>
      fst (fetchOpenAIModels e net apiKey) = processModels (data d)"
    by (simp add: fetch_success)
  show ?thesis
    using unmatched table first stable returned sorted_processModels [of ms]
      processModels_ids_stable [of _ ms] getModelPriority_find [of i]
    by blast
qed

theorem processModels_sorted_stable_witness:
  "list_all (\<lambda>k. \<not> sublist k ''o3-mini'') (map fst priorities) \<and>
   getModelPriority ''o3-mini'' = 999 \<and>
   getModelPriority ''gpt-5-mini'' = 1 \<and>
   getModelPriority ''chatgpt-4o-latest'' = 5 \<and>
   (8::nat) < length priorities \<and> sublist (fst (priorities ! 8)) ''gpt-4.1'' \<and>
   list_all (\<lambda>m. \<not> sublist (fst (priorities ! m)) ''gpt-4.1'') [0..<8] \<and>
   getModelPriority ''gpt-4.1'' = 9 \<and>
   resolveKey env_key None = Some ''sk-env'' \<and>
   net_ok (models_request ''sk-env'') = Inr response_ok \<and> ok response_ok \<and>
   response_json response_ok = Inr sample_data \<and>
   sorted (map (\<lambda>m. getModelPriority (model_id m)) (fst (fetchOpenAIModels env_key net_ok None))) \<and>
   filter (\<lambda>i. getModelPriority i = 5)
     (map model_id (fst (fetchOpenAIModels env_key net_ok None))) =
     [''gpt-4o-mini'', ''gpt-4o'', ''chatgpt-4o-latest'']"
proof -
  have h: "\<forall>k \<in> set (map fst priorities). \<not> sublist k ''o3-mini''"
    by (simp add: priorities_def includes_str_sublist [symmetric])
  have g: "net_ok (models_request ''sk-env'') = Inr response_ok" "ok response_ok"
      "response_json response_ok = Inr sample_data" "''sk-env'' \<noteq> []"
    by (simp_all add: net_ok_def response_ok_def ok_def)
  have f: "find (\<lambda>kp. sublist (fst kp) ''gpt-5-mini'') priorities = Some (''gpt-5'', 1)"
      "find (\<lambda>kp. sublist (fst kp) ''chatgpt-4o-latest'') priorities = Some (''gpt-4o'', 5)"
    by (simp_all add: priorities_def includes_str_sublist [symmetric])
  have r1: "getModelPriority ''gpt-5-mini'' = 1"
    using f(1) processModels_sorted_stable [where i = "''gpt-5-mini''"] by simp
  have r2: "getModelPriority ''chatgpt-4o-latest'' = 5"
    using f(2) processModels_sorted_stable [where i = "''chatgpt-4o-latest''"] by simp
  have p: "(8::nat) < length priorities" "sublist (fst (priorities ! 8)) ''gpt-4.1''"
      "\<forall>m < 8. \<not> sublist (fst (priorities ! m)) ''gpt-4.1''"
      "snd (priorities ! 8) = 9"
    by (simp_all add: priorities_def includes_str_sublist [symmetric] All_less_Suc
        eval_nat_numeral)
  have "getModelPriority ''gpt-4.1'' = snd (priorities ! 8)"
    using p(1,2,3) processModels_sorted_stable [where i = "''gpt-4.1''" and n = 8] by blast
  with p(4) have r3: "getModelPriority ''gpt-4.1'' = 9"
    by simp
  have p': "list_all (\<lambda>m. \<not> sublist (fst (priorities ! m)) ''gpt-4.1'') [0..<8]"
    using p(3) by (simp add: list_all_iff)
  have v: "filter (\<lambda>i. getModelPriority i = 5 \<and> isValidModel i) (map raw_id (data sample_data)) =
      [''gpt-4o-mini'', ''gpt-4o'', ''chatgpt-4o-latest'']"
    by (simp add: sample_data_def mk_def getModelPriority_def priorities_def isValidModel_def)
  note inst = processModels_sorted_stable [where ms = "data sample_data" and i = "''o3-mini''"
      and e = env_key and apiKey = None and key = "''sk-env''" and net = net_ok
      and r = response_ok and d = sample_data]
  have r0: "getModelPriority ''o3-mini'' = 999"
    using h inst by blast
  have out: "fst (fetchOpenAIModels env_key net_ok None) = processModels (data sample_data)"
    using g env_key_resolves inst by blast
  have srt: "sorted (map (\<lambda>m. getModelPriority (model_id m)) (processModels (data sample_data)))"
    using inst by blast
  have "filter (\<lambda>i. getModelPriority i = 5) (map model_id (processModels (data sample_data))) =
      filter (\<lambda>i. getModelPriority i = 5 \<and> isValidModel i) (map raw_id (data sample_data))"
    using inst by blast
  with v out srt r0 have rest: "getModelPriority ''o3-mini'' = 999 \<and>
     sorted (map (\<lambda>m. getModelPriority (model_id m)) (fst (fetchOpenAIModels env_key net_ok None))) \<and>
     filter (\<lambda>i. getModelPriority i = 5)
       (map model_id (fst (fetchOpenAIModels env_key net_ok None))) =
       [''gpt-4o-mini'', ''gpt-4o'', ''chatgpt-4o-latest'']"
    by simp
  show ?thesis
    using h g r1 r2 r3 p(1,2) p' rest env_key_resolves by (simp add: list_all_iff)
qed

section \<open>The filter\<close>

text \<open>
  Claim C4. A record is retained if and only if its identifier starts with \<open>gpt-\<close>,
  \<open>o1\<close> or \<open>o3\<close> or is one of the aliases \<open>gpt-4o\<close>, \<open>gpt-4o-mini\<close>,
  \<open>chatgpt-4o-latest\<close>, and contains neither \<open>instruct\<close> nor \<open>base\<close>; so an identifier
  that contains \<open>instruct\<close> or \<open>base\<close> is excluded whatever its prefix; and the filter
  keeps the order of the records.
\<close>

theorem filter_rule:
  "(isValidModel i \<longleftrightarrow>
      (prefix ''gpt-'' i \<or> prefix ''o1'' i \<or> prefix ''o3'' i \<or>
       i \<in> {''gpt-4o'', ''gpt-4o-mini'', ''chatgpt-4o-latest''}) \<and>
      \<not> sublist ''instruct'' i \<and> \<not> sublist ''base'' i) \<and>
   (sublist ''instruct'' i \<or> sublist ''base'' i \<longrightarrow> \<not> isValidModel i) \<and>
   (m \<in> set (filterModels ms) \<longleftrightarrow> m \<in> set ms \<and> isValidModel (raw_id m)) \<and>
   subseq (filterModels ms) ms"
  by (auto simp: isValidModel_def startsWith_prefix includes_str_sublist filterModels_def)

theorem filter_rule_witness:
  "sublist ''instruct'' ''gpt-3.5-turbo-instruct'' \<and>
   prefix ''gpt-'' ''gpt-3.5-turbo-instruct'' \<and>
   \<not> isValidModel ''gpt-3.5-turbo-instruct'' \<and>
   mk ''chatgpt-4o-latest'' \<in> set (data sample_data) \<and>
   isValidModel (raw_id (mk ''chatgpt-4o-latest'')) \<and>
   mk ''chatgpt-4o-latest'' \<in> set (filterModels (data sample_data)) \<and>
   subseq (filterModels (data sample_data)) (data sample_data)"
proof -
  have h: "sublist ''instruct'' ''gpt-3.5-turbo-instruct''"
      "prefix ''gpt-'' ''gpt-3.5-turbo-instruct''"
    by (simp_all add: includes_str_sublist [symmetric] startsWith_prefix [symmetric])
  have m: "mk ''chatgpt-4o-latest'' \<in> set (data sample_data)"
    by (simp add: sample_data_def)
  have a: "''chatgpt-4o-latest'' \<in> {''gpt-4o'', ''gpt-4o-mini'', ''chatgpt-4o-latest''}"
      "\<not> sublist ''instruct'' ''chatgpt-4o-latest''" "\<not> sublist ''base'' ''chatgpt-4o-latest''"
      "raw_id (mk ''chatgpt-4o-latest'') = ''chatgpt-4o-latest''"
    by (simp_all add: includes_str_sublist [symmetric] mk_def)
  show ?thesis
    using h m a
      filter_rule [of "''gpt-3.5-turbo-instruct''" "mk ''chatgpt-4o-latest''" "data sample_data"]
      filter_rule [of "''chatgpt-4o-latest''" "mk ''chatgpt-4o-latest''" "data sample_data"]
    by simp
qed

text \<open>
  Claim C10. The retention predicate of the code agrees, on every identifier, with the
  simpler predicate that drops the aliases \<open>gpt-4o\<close> and \<open>gpt-4o-mini\<close>: both start with
  \<open>gpt-\<close>. Hence the filter built from either predicate is the same function.
\<close>

theorem isValidModel_simple_equiv:
  "isValidModel i = isValidModel_simple i \<and>
   filterModels ms = filter (\<lambda>model. isValidModel_simple (raw_id model)) ms"
proof -
  have "prefix ''gpt-'' ''gpt-4o''" "prefix ''gpt-'' ''gpt-4o-mini''"
    by (simp_all add: startsWith_prefix [symmetric])
  then have "isValidModel j = isValidModel_simple j" for j
    by (auto simp: isValidModel_def isValidModel_simple_def startsWith_prefix includes_str_sublist)
  then show ?thesis by (simp add: filterModels_def)
qed

theorem isValidModel_simple_equiv_witness:
  "isValidModel ''gpt-4o-mini'' \<and> isValidModel_simple ''gpt-4o-mini'' \<and>
   \<not> isValidModel ''babbage-002'' \<and> \<not> isValidModel_simple ''babbage-002''"
proof -
  have "isValidModel ''gpt-4o-mini''" "\<not> isValidModel ''babbage-002''"
    by (simp_all add: isValidModel_def)
  then show ?thesis
    using isValidModel_simple_equiv [of "''gpt-4o-mini''" "[]"]
      isValidModel_simple_equiv [of "''babbage-002''" "[]"]
    by simp
qed

section \<open>The cache\<close>

lemma cached_hit:
  "cachedModels c = Some ms \<Longrightarrow> now - cacheTimestamp c < 300000 \<Longrightarrow>
   getCachedOpenAIModels e net now apiKey c = (ms, c, [])"
  by (simp add: getCachedOpenAIModels_def CACHE_DURATION_def)

lemma cached_miss:
  "cachedModels c = None \<or> \<not> now - cacheTimestamp c < 300000 \<Longrightarrow>
   getCachedOpenAIModels e net now apiKey c =
     (fst (fetchOpenAIModels e net apiKey),
      \<lparr>cachedModels = Some (fst (fetchOpenAIModels e net apiKey)), cacheTimestamp = now\<rparr>,
      snd (fetchOpenAIModels e net apiKey))"
  by (cases c; cases "fetchOpenAIModels e net apiKey")
    (auto simp: getCachedOpenAIModels_def CACHE_DURATION_def Let_def split: option.splits)

text \<open>
  Claim C5. If a snapshot exists and \<open>now\<close> minus its timestamp is below 300000 ms,
  \<open>getCachedOpenAIModels\<close> returns the cached entries, leaves the cache as it is and sends
  no request. Consequently, when a call misses the cache and fetches with a resolvable
  credential, and a second call follows less than 300000 ms later, the two calls send
  exactly one request between them, whatever the second call's arguments, environment and
  upstream are, and the second call returns what the first returned.
\<close>

theorem cache_hit_no_fetch:
  "(cachedModels c = Some ms \<and> now - cacheTimestamp c < 300000 \<longrightarrow>
      getCachedOpenAIModels e net now apiKey c = (ms, c, [])) \<and>
   ((cachedModels c = None \<or> \<not> now - cacheTimestamp c < 300000) \<and>
    truthy (resolveKey e apiKey) \<and>
    getCachedOpenAIModels e net now apiKey c = (r1, c1, q1) \<and>
    now2 - now < 300000 \<and>
    getCachedOpenAIModels e2 net2 now2 apiKey2 c1 = (r2, c2, q2) \<longrightarrow>
      length (q1 @ q2) = 1 \<and> q2 = [] \<and> r2 = r1 \<and> c2 = c1)"
proof (intro conjI impI)
  assume "cachedModels c = Some ms \<and> now - cacheTimestamp c < 300000"
  then show "getCachedOpenAIModels e net now apiKey c = (ms, c, [])"
    by (simp add: cached_hit)
next
  assume a: "(cachedModels c = None \<or> \<not> now - cacheTimestamp c < 300000) \<and>
    truthy (resolveKey e apiKey) \<and>
    getCachedOpenAIModels e net now apiKey c = (r1, c1, q1) \<and>
    now2 - now < 300000 \<and>
    getCachedOpenAIModels e2 net2 now2 apiKey2 c1 = (r2, c2, q2)"
  then obtain key where key: "resolveKey e apiKey = Some key" "key \<noteq> []"
    by (auto simp: truthy_iff)
  from a have first: "r1 = fst (fetchOpenAIModels e net apiKey)"
      "c1 = \<lparr>cachedModels = Some r1, cacheTimestamp = now\<rparr>"
      "q1 = snd (fetchOpenAIModels e net apiKey)"
    using cached_miss [of c now e net apiKey] by auto
  have q1: "q1 = [models_request key]"
    using first(3) key by (simp add: fetch_requests try_requests)
  have second: "getCachedOpenAIModels e2 net2 now2 apiKey2 c1 = (r1, c1, [])"
    using a first(2) by (intro cached_hit) simp_all
  with a have "r2 = r1" "c2 = c1" "q2 = []" by simp_all
  with q1 show "length (q1 @ q2) = 1" "q2 = []" "r2 = r1" "c2 = c1" by simp_all
qed

theorem cache_hit_no_fetch_witness:
  "cachedModels \<lparr>cachedModels = Some [], cacheTimestamp = 1000\<rparr> = Some [] \<and>
   (300999::int) - 1000 < 300000 \<and>
   getCachedOpenAIModels env_key net_ok 300999 None \<lparr>cachedModels = Some [], cacheTimestamp = 1000\<rparr> =
     ([], \<lparr>cachedModels = Some [], cacheTimestamp = 1000\<rparr>, []) \<and>
   cachedModels initial_cache = None \<and> truthy (resolveKey env_key None) \<and>
   length (snd (snd (getCachedOpenAIModels env_key net_ok 1000 None initial_cache)) @
           snd (snd (getCachedOpenAIModels env_key net_down 300999 (Some ''sk-user'')
             (fst (snd (getCachedOpenAIModels env_key net_ok 1000 None initial_cache)))))) = 1"
proof -
  let ?first = "getCachedOpenAIModels env_key net_ok 1000 None initial_cache"
  let ?second = "getCachedOpenAIModels env_key net_down 300999 (Some ''sk-user'') (fst (snd ?first))"
  have h: "cachedModels initial_cache = None" "truthy (resolveKey env_key None)"
      "(300999::int) - 1000 < 300000"
      "cachedModels \<lparr>cachedModels = Some [], cacheTimestamp = 1000\<rparr> = Some []"
    by (simp_all add: initial_cache_def env_key_resolves truthy_def)
  have p: "?first = (fst ?first, fst (snd ?first), snd (snd ?first))"
      "?second = (fst ?second, fst (snd ?second), snd (snd ?second))"
    by simp_all
  from h(3,4)
    cache_hit_no_fetch [where c = "\<lparr>cachedModels = Some [], cacheTimestamp = 1000\<rparr>" and ms = "[]"
        and now = 300999 and e = env_key and net = net_ok and apiKey = None]
  have hit: "getCachedOpenAIModels env_key net_ok 300999 None
      \<lparr>cachedModels = Some [], cacheTimestamp = 1000\<rparr> =
     ([], \<lparr>cachedModels = Some [], cacheTimestamp = 1000\<rparr>, [])"
    by simp
  from h(1,2,3) p
    cache_hit_no_fetch [where c = initial_cache and now = 1000 and e = env_key and net = net_ok
        and apiKey = None and ?now2.0 = 300999 and ?e2.0 = env_key and ?net2.0 = net_down
        and ?apiKey2.0 = "Some ''sk-user''"
        and ?r1.0 = "fst ?first" and ?c1.0 = "fst (snd ?first)" and ?q1.0 = "snd (snd ?first)"
        and ?r2.0 = "fst ?second" and ?c2.0 = "fst (snd ?second)" and ?q2.0 = "snd (snd ?second)"]
  have once: "length (snd (snd ?first) @ snd (snd ?second)) = 1"
    by blast
  from h hit once show ?thesis by blast
qed

text \<open>
  Claim C6. On a cache miss, \<open>getCachedOpenAIModels\<close> stores what \<open>fetchOpenAIModels\<close>
  returned as the new snapshot, with the current timestamp, also when that is the empty
  list. So when the fetch fails, the snapshot becomes the empty list, and every call less
  than 300000 ms later returns the empty list from the cache and sends no request, whatever
  its credential and whatever the upstream would answer then.
\<close>

theorem cache_miss_stores_result:
  "(cachedModels c = None \<or> \<not> now - cacheTimestamp c < 300000) \<longrightarrow>
     getCachedOpenAIModels e net now apiKey c =
       (fst (fetchOpenAIModels e net apiKey),
        \<lparr>cachedModels = Some (fst (fetchOpenAIModels e net apiKey)), cacheTimestamp = now\<rparr>,
        snd (fetchOpenAIModels e net apiKey)) \<and>
     (fst (fetchOpenAIModels_try e net apiKey) = Inl err \<longrightarrow>
        fst (snd (getCachedOpenAIModels e net now apiKey c)) =
          \<lparr>cachedModels = Some [], cacheTimestamp = now\<rparr> \<and>
        (\<forall>now' e' net' apiKey'. now' - now < 300000 \<longrightarrow>
           getCachedOpenAIModels e' net' now' apiKey'
             (fst (snd (getCachedOpenAIModels e net now apiKey c))) =
           ([], \<lparr>cachedModels = Some [], cacheTimestamp = now\<rparr>, [])))"
proof (intro impI conjI allI)
  assume miss: "cachedModels c = None \<or> \<not> now - cacheTimestamp c < 300000"
  then show m: "getCachedOpenAIModels e net now apiKey c =
       (fst (fetchOpenAIModels e net apiKey),
        \<lparr>cachedModels = Some (fst (fetchOpenAIModels e net apiKey)), cacheTimestamp = now\<rparr>,
        snd (fetchOpenAIModels e net apiKey))"
    by (rule cached_miss)
  assume "fst (fetchOpenAIModels_try e net apiKey) = Inl err"
  then have "fst (fetchOpenAIModels e net apiKey) = []" by (rule fetch_caught)
  with m show c': "fst (snd (getCachedOpenAIModels e net now apiKey c)) =
          \<lparr>cachedModels = Some [], cacheTimestamp = now\<rparr>"
    by simp
  fix now' :: int and e' net' apiKey'
  assume "now' - now < 300000"
  then show "getCachedOpenAIModels e' net' now' apiKey'
             (fst (snd (getCachedOpenAIModels e net now apiKey c))) =
           ([], \<lparr>cachedModels = Some [], cacheTimestamp = now\<rparr>, [])"
    unfolding c' by (intro cached_hit) simp_all
qed

theorem cache_miss_stores_result_witness:
  "cachedModels initial_cache = None \<and>
   fst (fetchOpenAIModels_try env_key net_down None) = Inl (TypeError ''fetch failed'') \<and>
   (304999::int) - 5000 < 300000 \<and>
   getCachedOpenAIModels env_key net_down 5000 None initial_cache =
     ([], \<lparr>cachedModels = Some [], cacheTimestamp = 5000\<rparr>, [models_request ''sk-env'']) \<and>
   getCachedOpenAIModels env_key net_ok 304999 (Some ''sk-user'')
     (fst (snd (getCachedOpenAIModels env_key net_down 5000 None initial_cache))) =
     ([], \<lparr>cachedModels = Some [], cacheTimestamp = 5000\<rparr>, [])"
proof -
  have h: "cachedModels initial_cache = None" "(304999::int) - 5000 < 300000"
    by (simp_all add: initial_cache_def)
  have f: "fetchOpenAIModels env_key net_down None = ([], [models_request ''sk-env''])"
    by (simp add: fetchOpenAIModels_def fetchOpenAIModels_try_def env_key_resolves net_down_def)
  from h try_down
    cache_miss_stores_result [where c = initial_cache and now = 5000 and e = env_key
        and net = net_down and apiKey = None and err = "TypeError ''fetch failed''"]
  have first: "getCachedOpenAIModels env_key net_down 5000 None initial_cache =
       (fst (fetchOpenAIModels env_key net_down None),
        \<lparr>cachedModels = Some (fst (fetchOpenAIModels env_key net_down None)), cacheTimestamp = 5000\<rparr>,
        snd (fetchOpenAIModels env_key net_down None))"
    and later: "\<forall>now' e' net' apiKey'. now' - 5000 < 300000 \<longrightarrow>
       getCachedOpenAIModels e' net' now' apiKey'
         (fst (snd (getCachedOpenAIModels env_key net_down 5000 None initial_cache))) =
       ([], \<lparr>cachedModels = Some [], cacheTimestamp = 5000\<rparr>, [])"
    by blast+
  from later h(2)
  have "getCachedOpenAIModels env_key net_ok 304999 (Some ''sk-user'')
     (fst (snd (getCachedOpenAIModels env_key net_down 5000 None initial_cache))) =
     ([], \<lparr>cachedModels = Some [], cacheTimestamp = 5000\<rparr>, [])"
    by blast
  with first f h try_down show ?thesis by simp
qed

section \<open>Errors and the missing credential\<close>

text \<open>
  Claim C7, as stated: for every response whose status is not 2xx, the body of
  \<open>fetchOpenAIModels\<close> raises the error that carries the status code and the status
  text. Line 37 awaits \<^verbatim>\<open>response.text()\<close> before line 39 throws; when the body of the
  response cannot be read, that rejection is what is raised, and the error of line 39 is
  never built.
\<close>

theorem unreadable_body_error:
  "net_500_unreadable (models_request ''sk-env'') = Inr response_500_unreadable \<and>
   \<not> (200 \<le> status response_500_unreadable \<and> status response_500_unreadable \<le> 299) \<and>
   fst (fetchOpenAIModels_try env_key net_500_unreadable None) = Inl (TypeError ''terminated'')"
  by (simp add: fetchOpenAIModels_try_def env_key_resolves net_500_unreadable_def
      response_500_unreadable_def ok_def)

text \<open>
  Claim C7, amended: for every response whose status is not 2xx and whose body text can be
  read, the body of \<open>fetchOpenAIModels\<close> raises the error whose message carries the
  status code and the status text; when reading that body fails, the read error is what is
  raised instead. A rejected \<^verbatim>\<open>fetch\<close> and, on a 2xx response, a failing
  \<^verbatim>\<open>response.json()\<close> raise their own errors. Every error raised in the body, of
  whatever kind, is caught: \<open>fetchOpenAIModels\<close> then returns the empty list, and so does
  \<open>getCachedOpenAIModels\<close> when it has to fetch. No public operation raises.
\<close>

theorem upstream_error_caught:
  "(resolveKey e apiKey = Some key \<and> key \<noteq> [] \<and> net (models_request key) = Inr r \<and>
    \<not> (200 \<le> status r \<and> status r \<le> 299) \<and> response_text r = Inr errorText \<longrightarrow>
      fst (fetchOpenAIModels_try e net apiKey) =
        Inl (Error (''OpenAI API error: '' @ string_of_nat (status r) @ '' '' @ statusText r))) \<and>
   (resolveKey e apiKey = Some key \<and> key \<noteq> [] \<and> net (models_request key) = Inr r \<and>
    \<not> (200 \<le> status r \<and> status r \<le> 299) \<and> response_text r = Inl rerr \<longrightarrow>
      fst (fetchOpenAIModels_try e net apiKey) = Inl rerr) \<and>
   (resolveKey e apiKey = Some key \<and> key \<noteq> [] \<and> net (models_request key) = Inl ferr \<longrightarrow>
      fst (fetchOpenAIModels_try e net apiKey) = Inl ferr) \<and>
   (resolveKey e apiKey = Some key \<and> key \<noteq> [] \<and> net (models_request key) = Inr r \<and>
    200 \<le> status r \<and> status r \<le> 299 \<and> response_json r = Inl jerr \<longrightarrow>
      fst (fetchOpenAIModels_try e net apiKey) = Inl jerr) \<and>
   (fst (fetchOpenAIModels_try e net apiKey) = Inl err \<longrightarrow>
      fst (fetchOpenAIModels e net apiKey) = [] \<and>
      ((cachedModels c = None \<or> \<not> now - cacheTimestamp c < 300000) \<longrightarrow>
         fst (getCachedOpenAIModels e net now apiKey c) = []))"
proof (intro conjI impI)
  assume "resolveKey e apiKey = Some key \<and> key \<noteq> [] \<and> net (models_request key) = Inr r \<and>
    \<not> (200 \<le> status r \<and> status r \<le> 299) \<and> response_text r = Inr errorText"
  then show "fst (fetchOpenAIModels_try e net apiKey) =
        Inl (Error (''OpenAI API error: '' @ string_of_nat (status r) @ '' '' @ statusText r))"
    by (simp add: fetchOpenAIModels_try_def ok_def api_error_message_def)
next
  assume "resolveKey e apiKey = Some key \<and> key \<noteq> [] \<and> net (models_request key) = Inr r \<and>
    \<not> (200 \<le> status r \<and> status r \<le> 299) \<and> response_text r = Inl rerr"
  then show "fst (fetchOpenAIModels_try e net apiKey) = Inl rerr"
    by (simp add: try_read_error)
next
  assume "resolveKey e apiKey = Some key \<and> key \<noteq> [] \<and> net (models_request key) = Inl ferr"
  then show "fst (fetchOpenAIModels_try e net apiKey) = Inl ferr"
    by (simp add: try_fetch_rejected)
next
  assume "resolveKey e apiKey = Some key \<and> key \<noteq> [] \<and> net (models_request key) = Inr r \<and>
    200 \<le> status r \<and> status r \<le> 299 \<and> response_json r = Inl jerr"
  then show "fst (fetchOpenAIModels_try e net apiKey) = Inl jerr"
    by (simp add: try_json_error)
next
  assume err: "fst (fetchOpenAIModels_try e net apiKey) = Inl err"
  then show "fst (fetchOpenAIModels e net apiKey) = []" by (rule fetch_caught)
  assume "cachedModels c = None \<or> \<not> now - cacheTimestamp c < 300000"
  then show "fst (getCachedOpenAIModels e net now apiKey c) = []"
    by (simp add: cached_miss fetch_caught [OF err])
qed

theorem upstream_error_caught_witness:
  "resolveKey env_key None = Some ''sk-env'' \<and>
   net_401 (models_request ''sk-env'') = Inr response_401 \<and>
   \<not> (200 \<le> status response_401 \<and> status response_401 \<le> 299) \<and>
   response_text response_401 = Inr ''invalid key'' \<and>
   fst (fetchOpenAIModels_try env_key net_401 None) =
     Inl (Error ''OpenAI API error: 401 Unauthorized'') \<and>
   fst (fetchOpenAIModels env_key net_401 None) = [] \<and>
   cachedModels initial_cache = None \<and>
   fst (getCachedOpenAIModels env_key net_401 0 None initial_cache) = [] \<and>
   net_500_unreadable (models_request ''sk-env'') = Inr response_500_unreadable \<and>
   \<not> (200 \<le> status response_500_unreadable \<and> status response_500_unreadable \<le> 299) \<and>
   response_text response_500_unreadable = Inl (TypeError ''terminated'') \<and>
   fst (fetchOpenAIModels_try env_key net_500_unreadable None) = Inl (TypeError ''terminated'') \<and>
   fst (fetchOpenAIModels env_key net_500_unreadable None) = [] \<and>
   net_down (models_request ''sk-env'') = Inl (TypeError ''fetch failed'') \<and>
   fst (fetchOpenAIModels_try env_key net_down None) = Inl (TypeError ''fetch failed'') \<and>
   net_bad_json (models_request ''sk-env'') = Inr response_bad_json \<and>
   200 \<le> status response_bad_json \<and> status response_bad_json \<le> 299 \<and>
   response_json response_bad_json = Inl (SyntaxError ''Unexpected token'') \<and>
   fst (fetchOpenAIModels_try env_key net_bad_json None) = Inl (SyntaxError ''Unexpected token'')"
proof -
  have h: "net_401 (models_request ''sk-env'') = Inr response_401"
      "\<not> (200 \<le> status response_401 \<and> status response_401 \<le> 299)"
      "response_text response_401 = Inr ''invalid key''"
      "status response_401 = 401" "statusText response_401 = ''Unauthorized''"
      "cachedModels initial_cache = None" "''sk-env'' \<noteq> []"
    by (simp_all add: net_401_def response_401_def initial_cache_def)
  have t: "fst (fetchOpenAIModels_try env_key net_401 None) =
     Inl (Error ''OpenAI API error: 401 Unauthorized'')"
    using h env_key_resolves
      upstream_error_caught [where e = env_key and apiKey = None and key = "''sk-env''"
          and net = net_401 and r = response_401 and errorText = "''invalid key''"]
    by (simp add: string_of_nat_401)
  have first: "fst (fetchOpenAIModels env_key net_401 None) = [] \<and>
      fst (getCachedOpenAIModels env_key net_401 0 None initial_cache) = []"
    using h t
      upstream_error_caught [where e = env_key and apiKey = None and net = net_401
          and err = "Error ''OpenAI API error: 401 Unauthorized''" and c = initial_cache
          and now = 0]
    by blast
  have u: "net_500_unreadable (models_request ''sk-env'') = Inr response_500_unreadable"
      "\<not> (200 \<le> status response_500_unreadable \<and> status response_500_unreadable \<le> 299)"
      "response_text response_500_unreadable = Inl (TypeError ''terminated'')"
    by (simp_all add: net_500_unreadable_def response_500_unreadable_def)
  have ut: "fst (fetchOpenAIModels_try env_key net_500_unreadable None) =
      Inl (TypeError ''terminated'')"
    using u h(7) env_key_resolves
      upstream_error_caught [where e = env_key and apiKey = None and key = "''sk-env''"
          and net = net_500_unreadable and r = response_500_unreadable
          and rerr = "TypeError ''terminated''"]
    by blast
  have uf: "fst (fetchOpenAIModels env_key net_500_unreadable None) = []"
    using ut
      upstream_error_caught [where e = env_key and apiKey = None and net = net_500_unreadable
          and err = "TypeError ''terminated''"]
    by blast
  have d: "net_down (models_request ''sk-env'') = Inl (TypeError ''fetch failed'')"
    by (simp add: net_down_def)
  have dt: "fst (fetchOpenAIModels_try env_key net_down None) = Inl (TypeError ''fetch failed'')"
    using d h(7) env_key_resolves
      upstream_error_caught [where e = env_key and apiKey = None and key = "''sk-env''"
          and net = net_down and ferr = "TypeError ''fetch failed''"]
    by blast
  have j: "net_bad_json (models_request ''sk-env'') = Inr response_bad_json"
      "200 \<le> status response_bad_json" "status response_bad_json \<le> 299"
      "response_json response_bad_json = Inl (SyntaxError ''Unexpected token'')"
    by (simp_all add: net_bad_json_def response_bad_json_def)
  have jt: "fst (fetchOpenAIModels_try env_key net_bad_json None) =
      Inl (SyntaxError ''Unexpected token'')"
    using j h(7) env_key_resolves
      upstream_error_caught [where e = env_key and apiKey = None and key = "''sk-env''"
          and net = net_bad_json and r = response_bad_json
          and jerr = "SyntaxError ''Unexpected token''"]
    by blast
  show ?thesis
    using h(1,2,3,6) t first u ut uf d dt j jt env_key_resolves by blast
qed

text \<open>
  Claim C8. If no credential can be resolved (the argument and both environment variables
  are absent or empty), \<open>fetchOpenAIModels\<close> returns the empty list and sends no request;
  the body returns normally (\<open>Inr\<close>), it does not raise.
\<close>

theorem no_credential_no_request:
  "\<not> truthy apiKey \<and> \<not> truthy (NEXT_PUBLIC_OPENAI_API_KEY e) \<and> \<not> truthy (OPENAI_API_KEY e) \<longrightarrow>
     fetchOpenAIModels_try e net apiKey = (Inr [], []) \<and>
     fetchOpenAIModels e net apiKey = ([], [])"
  by (simp add: try_no_key resolveKey_truthy fetchOpenAIModels_def)

theorem no_credential_no_request_witness:
  "\<not> truthy (Some []) \<and> \<not> truthy (NEXT_PUBLIC_OPENAI_API_KEY env_none) \<and>
   \<not> truthy (OPENAI_API_KEY env_none) \<and>
   fetchOpenAIModels_try env_none net_ok (Some []) = (Inr [], []) \<and>
   fetchOpenAIModels env_none net_ok (Some []) = ([], [])"
proof -
  have h: "\<not> truthy (Some [])" "\<not> truthy (NEXT_PUBLIC_OPENAI_API_KEY env_none)"
      "\<not> truthy (OPENAI_API_KEY env_none)"
    by (simp_all add: truthy_def env_none_def)
  show ?thesis
    using h no_credential_no_request [where apiKey = "Some []" and e = env_none and net = net_ok]
    by simp
qed

section \<open>Clearing the cache\<close>

text \<open>
  Claim C9, as stated: after \<open>clearOpenAIModelsCache\<close>, the next call of
  \<open>getCachedOpenAIModels\<close> always fetches from the upstream. Without a credential the
  call after the clearing sends no request at all.
\<close>

theorem clear_without_credential:
  "snd (snd (getCachedOpenAIModels env_none net_ok 2000 None
     (clearOpenAIModelsCache \<lparr>cachedModels = Some [], cacheTimestamp = 1000\<rparr>))) = []"
  by (simp add: getCachedOpenAIModels_def clearOpenAIModelsCache_def fetchOpenAIModels_def
      fetchOpenAIModels_try_def resolveKey_def js_or_def truthy_def env_none_def)

text \<open>
  Claim C9, amended: \<open>clearOpenAIModelsCache\<close> discards the snapshot whatever it was,
  and the next call of \<open>getCachedOpenAIModels\<close>, at whatever time, does not answer from the
  cache: it returns and stores what \<open>fetchOpenAIModels\<close> gives. That sends exactly one
  request to the upstream when a credential can be resolved, and none when it cannot.
\<close>

theorem clear_then_refresh:
  "clearOpenAIModelsCache c = \<lparr>cachedModels = None, cacheTimestamp = 0\<rparr> \<and>
   getCachedOpenAIModels e net now apiKey (clearOpenAIModelsCache c) =
     (fst (fetchOpenAIModels e net apiKey),
      \<lparr>cachedModels = Some (fst (fetchOpenAIModels e net apiKey)), cacheTimestamp = now\<rparr>,
      snd (fetchOpenAIModels e net apiKey)) \<and>
   (resolveKey e apiKey = Some key \<and> key \<noteq> [] \<longrightarrow>
      snd (snd (getCachedOpenAIModels e net now apiKey (clearOpenAIModelsCache c))) =
        [models_request key]) \<and>
   (\<not> truthy (resolveKey e apiKey) \<longrightarrow>
      snd (snd (getCachedOpenAIModels e net now apiKey (clearOpenAIModelsCache c))) = [])"
proof -
  have clr: "clearOpenAIModelsCache c = \<lparr>cachedModels = None, cacheTimestamp = 0\<rparr>"
    by (cases c) (simp add: clearOpenAIModelsCache_def)
  have get: "getCachedOpenAIModels e net now apiKey (clearOpenAIModelsCache c) =
     (fst (fetchOpenAIModels e net apiKey),
      \<lparr>cachedModels = Some (fst (fetchOpenAIModels e net apiKey)), cacheTimestamp = now\<rparr>,
      snd (fetchOpenAIModels e net apiKey))"
    unfolding clr by (rule cached_miss) simp
  show ?thesis
    unfolding get using clr by (simp add: fetch_requests try_requests try_no_key)
qed

theorem clear_then_refresh_witness:
  "resolveKey env_key None = Some ''sk-env'' \<and>
   snd (snd (getCachedOpenAIModels env_key net_ok 1001 None
     (clearOpenAIModelsCache \<lparr>cachedModels = Some [], cacheTimestamp = 1000\<rparr>))) =
     [models_request ''sk-env''] \<and>
   \<not> truthy (resolveKey env_none (Some [])) \<and>
   snd (snd (getCachedOpenAIModels env_none net_ok 1001 (Some [])
     (clearOpenAIModelsCache \<lparr>cachedModels = Some [], cacheTimestamp = 1000\<rparr>))) = []"
proof -
  have h: "\<not> truthy (resolveKey env_none (Some []))" "''sk-env'' \<noteq> []"
    by (simp_all add: resolveKey_def js_or_def truthy_def env_none_def)
  show ?thesis
    using h env_key_resolves
      clear_then_refresh [where e = env_key and apiKey = None and key = "''sk-env''"
          and net = net_ok and now = 1001
          and c = "\<lparr>cachedModels = Some [], cacheTimestamp = 1000\<rparr>"]
      clear_then_refresh [where e = env_none and apiKey = "Some []" and net = net_ok
          and now = 1001 and c = "\<lparr>cachedModels = Some [], cacheTimestamp = 1000\<rparr>"]
    by blast
qed

end
